theory Spec2Isabelle
  imports Main
begin

section \<open>Currency\<close>

text \<open>
  \<open>types.Currency\<close> of the siad library is a non-negative arbitrary-precision
  integer, so it is a natural number here. \<open>Add\<close> is addition and \<open>Cmp\<close> is the
  order. \<open>Sub\<close> is the one partial operation: when the left operand is smaller
  than the right one the library reports a critical error, which panics in a
  debug build and, in a release build, carries on with the left operand as the
  result. The build is the first argument of every function that subtracts.
\<close>

type_synonym Currency = nat

definition ZeroCurrency :: Currency where
  "ZeroCurrency = 0"

definition Sub :: "bool \<Rightarrow> Currency \<Rightarrow> Currency \<Rightarrow> string + Currency" where
  "Sub debug x y =
     (if x < y then (if debug then Inl ''negative currency'' else Inr x)
      else Inr (x - y))"

section \<open>Outcomes and errors\<close>

text \<open>
  A call either returns a value or panics; both leave a state behind, since the
  fields written before a panic stay written. An \<open>error\<close> is a value returned
  to the caller: \<open>ErrInsufficientBudget amount remaining\<close> is the error of
  \<open>Spend\<close> that wraps the sentinel of the same name together with the two
  amounts of its message, \<open>ErrFailedToDebit e\<close> wraps the error \<open>e\<close> of the
  account store.
\<close>

datatype ('r, 's) outcome = Returned 'r 's | Panic string 's

datatype 'e error = ErrInsufficientBudget Currency Currency | ErrFailedToDebit 'e

section \<open>Budget and account manager\<close>

text \<open>
  The struct \<open>budget\<close>. Its field \<open>max\<close> is \<open>max_amt\<close> here; its pointer \<open>am\<close>
  to the account manager is the manager state that \<open>Rollback\<close> and \<open>Commit\<close>
  take and return.
\<close>

record 'id budget =
  accountID :: 'id
  max_amt :: Currency
  spent :: Currency
  committed :: bool

text \<open>
  Modelled from the spec: the declarations of the account manager and of the
  entries of its table are not among the sources. An entry holds the
  spendable \<open>balance\<close> and the count \<open>openTxns\<close> of live budgets; the manager
  holds the table \<open>balances\<close> and the handle \<open>store\<close> of the durable ledger.
  The count is a signed integer, as \<open>openTxns--\<close> followed by a test against
  zero is written for. \<open>Debit\<close> of the store is a parameter: it returns the
  new balance or an error, and the store after the call.
\<close>

record accountState =
  balance :: Currency
  openTxns :: int

record ('id, 's) AccountManager =
  balances :: "'id \<rightharpoonup> accountState"
  store :: 's

type_synonym ('id, 's, 'e) Debit = "'s \<Rightarrow> 'id \<Rightarrow> Currency \<Rightarrow> ('e + Currency) \<times> 's"

subsection \<open>Operations on the budget alone\<close>

definition Remaining :: "bool \<Rightarrow> 'id budget \<Rightarrow> string + Currency" where
  "Remaining debug b = Sub debug (max_amt b) (spent b)"

definition Empty :: "'id budget \<Rightarrow> (Currency, 'id budget) outcome" where
  "Empty b =
     (if committed b then Panic ''budget already committed'' b
      else Returned (spent b) (b\<lparr>spent := max_amt b\<rparr>))"

definition Refund :: "bool \<Rightarrow> 'id budget \<Rightarrow> Currency \<Rightarrow> (unit, 'id budget) outcome" where
  "Refund debug b amount =
     (if committed b then Panic ''budget already committed'' b
      else if amount > spent b then Panic ''cannot refund more than spent'' b
      else (case Sub debug (spent b) amount of
              Inl msg \<Rightarrow> Panic msg b
            | Inr s \<Rightarrow> Returned () (b\<lparr>spent := s\<rparr>)))"

text \<open>
  \<open>Spend\<close> has no test of \<open>committed\<close>. The subtraction in its failing branch
  computes the remaining amount for the message of the error.
\<close>

definition Spend :: "bool \<Rightarrow> 'id budget \<Rightarrow> Currency \<Rightarrow> ('e error option, 'id budget) outcome" where
  "Spend debug b amount =
     (let spent' = spent b + amount in
      if max_amt b < spent' then
        (case Sub debug (max_amt b) (spent b) of
           Inl msg \<Rightarrow> Panic msg b
         | Inr r \<Rightarrow> Returned (Some (ErrInsufficientBudget amount r)) b)
      else Returned None (b\<lparr>spent := spent'\<rparr>))"

subsection \<open>Operations that reach the account manager\<close>

text \<open>
  The mutex of the manager is not modelled: a call runs from its start to its
  end on the state it is given. \<open>state\<close> is a copy of the table's entry, written
  back by the last assignment.
\<close>

definition Rollback ::
  "'id budget \<Rightarrow> ('id, 's) AccountManager
     \<Rightarrow> ('e error option, 'id budget \<times> ('id, 's) AccountManager) outcome" where
  "Rollback b am =
     (if committed b then Returned None (b, am)
      else (case balances am (accountID b) of
              None \<Rightarrow> Panic ''account missing from memory'' (b, am)
            | Some state0 \<Rightarrow>
                (let state = state0\<lparr>openTxns := openTxns state0 - 1\<rparr> in
                 if openTxns state = 0 then
                   Returned None (b, am\<lparr>balances := (balances am)(accountID b := None)\<rparr>)
                 else
                   (let state' = state\<lparr>balance := balance state + max_amt b\<rparr> in
                    Returned None
                      (b, am\<lparr>balances := (balances am)(accountID b \<mapsto> state')\<rparr>)))))"

definition Commit ::
  "bool \<Rightarrow> ('id, 's, 'e) Debit \<Rightarrow> 'id budget \<Rightarrow> ('id, 's) AccountManager
     \<Rightarrow> ('e error option, 'id budget \<times> ('id, 's) AccountManager) outcome" where
  "Commit debug debit b am =
     (if committed b then Panic ''budget already committed'' (b, am)
      else (case debit (store am) (accountID b) (spent b) of
              (Inl err, st) \<Rightarrow> Returned (Some (ErrFailedToDebit err)) (b, am\<lparr>store := st\<rparr>)
            | (Inr _, st) \<Rightarrow>
                (let am1 = am\<lparr>store := st\<rparr> in
                 case Sub debug (max_amt b) (spent b) of
                   Inl msg \<Rightarrow> Panic msg (b, am1)
                 | Inr rem \<Rightarrow>
                     (let b1 = b\<lparr>max_amt := ZeroCurrency, spent := ZeroCurrency,
                                  committed := True\<rparr> in
                      case balances am1 (accountID b1) of
                        None \<Rightarrow> Panic ''account missing from memory'' (b1, am1)
                      | Some state0 \<Rightarrow>
                          (let state = state0\<lparr>openTxns := openTxns state0 - 1\<rparr> in
                           if openTxns state = 0 then
                             Returned None
                               (b1, am1\<lparr>balances := (balances am1)(accountID b1 := None)\<rparr>)
                           else
                             (case Sub debug (max_amt b1) rem of
                                Inl msg \<Rightarrow> Panic msg (b1, am1)
                              | Inr d \<Rightarrow>
                                  (let state' = state\<lparr>balance := balance state + d\<rparr> in
                                   Returned None
                                     (b1, am1\<lparr>balances :=
                                              (balances am1)(accountID b1 \<mapsto> state')\<rparr>))))))))"

subsection \<open>Call sequences of the owning request\<close>

text \<open>
  A budget is driven by one request, call after call. \<open>Spend_seq\<close> is a request
  that calls \<open>Spend\<close> with each amount of a list in turn, whatever the earlier
  calls returned, and collects what they returned; a panic ends it.
  \<open>cumulativeSpent\<close> adds up the amounts of the calls that returned no error.
  \<open>Rollback_n\<close> is a request that calls \<open>Rollback\<close> \<open>n\<close> times, going on while
  the calls return no error.
\<close>

fun Spend_seq ::
  "bool \<Rightarrow> 'id budget \<Rightarrow> Currency list \<Rightarrow> ('e error option list, 'id budget) outcome" where
  "Spend_seq debug b [] = Returned [] b"
| "Spend_seq debug b (a # as) =
     (case Spend debug b a of
        Panic msg b' \<Rightarrow> Panic msg b'
      | Returned r b' \<Rightarrow>
          (case Spend_seq debug b' as of
             Panic msg b'' \<Rightarrow> Panic msg b''
           | Returned rs b'' \<Rightarrow> Returned (r # rs) b''))"

fun cumulativeSpent :: "Currency list \<Rightarrow> 'e error option list \<Rightarrow> Currency" where
  "cumulativeSpent (a # as) (r # rs) =
     (if r = None then a + cumulativeSpent as rs else cumulativeSpent as rs)"
| "cumulativeSpent _ _ = 0"

fun Rollback_n ::
  "nat \<Rightarrow> 'id budget \<Rightarrow> ('id, 's) AccountManager
     \<Rightarrow> ('e error option, 'id budget \<times> ('id, 's) AccountManager) outcome" where
  "Rollback_n 0 b am = Returned None (b, am)"
| "Rollback_n (Suc n) b am =
     (case Rollback b am of
        Returned None (b', am') \<Rightarrow> Rollback_n n b' am'
      | Returned (Some e) s \<Rightarrow> Returned (Some e) s
      | Panic msg s \<Rightarrow> Panic msg s)"

section \<open>Contract sector roots\<close>

text \<open>
  Modelled from the spec: the contract store (its update transaction with
  \<open>AppendSector\<close>, \<open>SwapSectors\<close> and \<open>TrimSectors\<close>, the function that runs a
  callback in one transaction, and \<open>SectorRoots\<close>) is not among the sources;
  only the test \<open>TestUpdateContractRoots\<close> that calls it is. The store maps a
  contract to its ordered list of sector roots. The handle given to the
  callback is the store as the operations issued so far have left it, so each
  index is checked against the current length and the operations apply in the
  order issued. An operation on a contract that is not stored fails. The
  callback returns an error or the handle it has built; on an error
  \<open>RunUpdate\<close> keeps the stored lists as they were, otherwise it stores the
  handle's lists.
\<close>

datatype store_error = ErrContractNotFound | ErrIndexOutOfRange

type_synonym ('c, 'h) ContractStore = "'c \<rightharpoonup> 'h list"

definition AppendSector ::
  "'c \<Rightarrow> 'h \<Rightarrow> ('c, 'h) ContractStore \<Rightarrow> store_error + ('c, 'h) ContractStore" where
  "AppendSector c root tx =
     (case tx c of
        None \<Rightarrow> Inl ErrContractNotFound
      | Some roots \<Rightarrow> Inr (tx(c \<mapsto> roots @ [root])))"

definition SwapSectors ::
  "'c \<Rightarrow> nat \<Rightarrow> nat \<Rightarrow> ('c, 'h) ContractStore \<Rightarrow> store_error + ('c, 'h) ContractStore" where
  "SwapSectors c i j tx =
     (case tx c of
        None \<Rightarrow> Inl ErrContractNotFound
      | Some roots \<Rightarrow>
          (if length roots \<le> i \<or> length roots \<le> j then Inl ErrIndexOutOfRange
           else Inr (tx(c \<mapsto> roots[i := roots ! j, j := roots ! i]))))"

definition TrimSectors ::
  "'c \<Rightarrow> nat \<Rightarrow> ('c, 'h) ContractStore \<Rightarrow> store_error + ('c, 'h) ContractStore" where
  "TrimSectors c n tx =
     (case tx c of
        None \<Rightarrow> Inl ErrContractNotFound
      | Some roots \<Rightarrow>
          (if length roots < n then Inl ErrIndexOutOfRange
           else Inr (tx(c \<mapsto> take (length roots - n) roots))))"

definition SectorRoots ::
  "'c \<Rightarrow> nat \<Rightarrow> nat \<Rightarrow> ('c, 'h) ContractStore \<Rightarrow> store_error + 'h list" where
  "SectorRoots c offset limit s =
     (case s c of
        None \<Rightarrow> Inl ErrContractNotFound
      | Some roots \<Rightarrow> Inr (take limit (drop offset roots)))"

definition RunUpdate ::
  "(('c, 'h) ContractStore \<Rightarrow> store_error + ('c, 'h) ContractStore)
     \<Rightarrow> ('c, 'h) ContractStore \<Rightarrow> store_error option \<times> ('c, 'h) ContractStore" where
  "RunUpdate fn s =
     (case fn s of
        Inl e \<Rightarrow> (Some e, s)
      | Inr tx \<Rightarrow> (None, tx))"

text \<open>
  The callbacks of the test issue their operations one after the other and
  return the first error: \<open>batch\<close> is such a callback, for a list of operations.
\<close>

datatype ('c, 'h) update_op = OpAppend 'c 'h | OpSwap 'c nat nat | OpTrim 'c nat

fun apply_update_op ::
  "('c, 'h) update_op \<Rightarrow> ('c, 'h) ContractStore \<Rightarrow> store_error + ('c, 'h) ContractStore" where
  "apply_update_op (OpAppend c root) tx = AppendSector c root tx"
| "apply_update_op (OpSwap c i j) tx = SwapSectors c i j tx"
| "apply_update_op (OpTrim c n) tx = TrimSectors c n tx"

fun batch ::
  "('c, 'h) update_op list \<Rightarrow> ('c, 'h) ContractStore
     \<Rightarrow> store_error + ('c, 'h) ContractStore" where
  "batch [] tx = Inr tx"
| "batch (op # ops) tx =
     (case apply_update_op op tx of
        Inl e \<Rightarrow> Inl e
      | Inr tx' \<Rightarrow> batch ops tx')"

section \<open>Properties of the budget\<close>

subsection \<open>Subtraction and spending within the invariant\<close>

lemma Sub_le: "y \<le> x \<Longrightarrow> Sub debug x y = Inr (x - y)"
  by (simp add: Sub_def)

lemma Spend_cases:
  "spent b \<le> max_amt b \<Longrightarrow>
   Spend debug b a =
     (if max_amt b < spent b + a
      then Returned (Some (ErrInsufficientBudget a (max_amt b - spent b))) b
      else Returned None (b\<lparr>spent := spent b + a\<rparr>))"
  by (simp add: Spend_def Sub_le Let_def)

lemma Spend_seq_total:
  "spent b \<le> max_amt b \<Longrightarrow>
   \<exists>(rs :: 'e error option list) b'.
      Spend_seq debug b as = Returned rs b' \<and> length rs = length as
      \<and> max_amt b' = max_amt b
      \<and> spent b' = spent b + cumulativeSpent as rs \<and> spent b' \<le> max_amt b'"
proof (induction as arbitrary: b)
  case Nil
  then show ?case by simp
next
  case (Cons a as)
  show ?case
  proof (cases "max_amt b < spent b + a")
    case True
    with Cons.prems have s:
      "Spend debug b a =
         Returned (Some (ErrInsufficientBudget a (max_amt b - spent b) :: 'e error)) b"
      by (simp add: Spend_cases)
    from Cons.IH [OF Cons.prems] obtain rs :: "'e error option list" and b' where
      "Spend_seq debug b as = Returned rs b'" "length rs = length as"
      "max_amt b' = max_amt b" "spent b' = spent b + cumulativeSpent as rs"
      "spent b' \<le> max_amt b'" by blast
    with s show ?thesis by simp
  next
    case False
    let ?b1 = "b\<lparr>spent := spent b + a\<rparr>"
    from False Cons.prems have s:
      "Spend debug b a = Returned (None :: 'e error option) ?b1"
      by (simp add: Spend_cases)
    from False have "spent ?b1 \<le> max_amt ?b1" by simp
    from Cons.IH [OF this] obtain rs :: "'e error option list" and b' where
      "Spend_seq debug ?b1 as = Returned rs b'" "length rs = length as"
      "max_amt b' = max_amt ?b1" "spent b' = spent ?b1 + cumulativeSpent as rs"
      "spent b' \<le> max_amt b'" by blast
    with s show ?thesis by simp
  qed
qed

lemma Commit_success_budget:
  assumes "Commit debug debit b am = Returned None (b', am')"
  shows "b' = b\<lparr>max_amt := 0, spent := 0, committed := True\<rparr>"
  using assms
  by (auto simp add: Commit_def ZeroCurrency_def Let_def
           split: if_splits prod.splits sum.splits option.splits)

lemma Commit_returned_budget:
  assumes "Commit debug debit b am = Returned r (b', am')"
  shows "b' = b \<or> b' = b\<lparr>max_amt := 0, spent := 0, committed := True\<rparr>"
  using assms
  by (auto simp add: Commit_def ZeroCurrency_def Let_def
           split: if_splits prod.splits sum.splits option.splits)

lemma Rollback_budget:
  assumes "Rollback b am = Returned r (b', am')"
  shows "b' = b"
  using assms
  by (auto simp add: Rollback_def Let_def split: if_splits option.splits)

subsection \<open>Commit and the unused remainder\<close>

text \<open>
  What \<open>Commit\<close> does to the balance of an account that keeps other open
  transactions, once the debit has succeeded: a release build adds nothing,
  whatever the remainder is, and a debug build panics as soon as the remainder
  is positive.
\<close>

lemma Commit_release_adds_nothing:
  assumes "\<not> committed b"
    and "debit (store am) (accountID b) (spent b) = (Inr nb, st)"
    and "balances am (accountID b) = Some s0" and "openTxns s0 - 1 \<noteq> 0"
  shows "Commit False debit b am =
           Returned None
             (b\<lparr>max_amt := 0, spent := 0, committed := True\<rparr>,
              am\<lparr>store := st,
                 balances := (balances am)(accountID b \<mapsto>
                               s0\<lparr>openTxns := openTxns s0 - 1\<rparr>)\<rparr>)"
  using assms by (simp add: Commit_def Sub_def ZeroCurrency_def Let_def)

lemma Commit_debug_panics:
  assumes "\<not> committed b"
    and "debit (store am) (accountID b) (spent b) = (Inr nb, st)"
    and "balances am (accountID b) = Some s0" and "openTxns s0 - 1 \<noteq> 0"
    and "spent b < max_amt b"
  shows "Commit True debit b am =
           Panic ''negative currency''
             (b\<lparr>max_amt := 0, spent := 0, committed := True\<rparr>, am\<lparr>store := st\<rparr>)"
  using assms by (simp add: Commit_def Sub_def ZeroCurrency_def Let_def)

text \<open>
  C1. The claim: a \<open>Commit\<close> whose debit succeeded, on an account that keeps
  other open transactions, adds \<open>max - spent\<close> to the account's in-memory
  balance. The code subtracts the remainder from \<open>b.max\<close> after it has set
  \<open>b.max\<close> to zero. For a budget of 10 with 3 spent, on an account with balance
  5 and two open transactions, the claim asks for a balance of 12: the release
  build leaves the balance at 5, the debug build panics in the subtraction.
\<close>

theorem Commit_does_not_restore_remainder:
  "Commit False (\<lambda>st id amt. (Inr (st - amt) :: string + nat, st - amt))
      \<lparr>accountID = (1::nat), max_amt = 10, spent = 3, committed = False\<rparr>
      \<lparr>balances = [1 \<mapsto> \<lparr>balance = 5, openTxns = 2\<rparr>], store = (100::nat)\<rparr>
   = Returned None
      (\<lparr>accountID = 1, max_amt = 0, spent = 0, committed = True\<rparr>,
       \<lparr>balances = [1 \<mapsto> \<lparr>balance = 5, openTxns = 1\<rparr>], store = 97\<rparr>)
   \<and>
   Commit True (\<lambda>st id amt. (Inr (st - amt) :: string + nat, st - amt))
      \<lparr>accountID = (1::nat), max_amt = 10, spent = 3, committed = False\<rparr>
      \<lparr>balances = [1 \<mapsto> \<lparr>balance = 5, openTxns = 2\<rparr>], store = (100::nat)\<rparr>
   = Panic ''negative currency''
      (\<lparr>accountID = 1, max_amt = 0, spent = 0, committed = True\<rparr>,
       \<lparr>balances = [1 \<mapsto> \<lparr>balance = 5, openTxns = 2\<rparr>], store = 97\<rparr>)"
  by (simp add: Commit_def Sub_def ZeroCurrency_def Let_def)

subsection \<open>Empty\<close>

text \<open>
  C2. The claim: \<open>Empty\<close> on an uncommitted budget sets \<open>spent\<close> to \<open>max\<close> and
  returns \<open>max - spent\<close> as it was before the call. On a budget of 10 with 3
  spent the call returns 3, not 7.
\<close>

theorem Empty_returns_unspent_counterexample:
  "Empty \<lparr>accountID = (1::nat), max_amt = 10, spent = 3, committed = False\<rparr>
     = Returned 3 \<lparr>accountID = 1, max_amt = 10, spent = 10, committed = False\<rparr>
   \<and> Empty \<lparr>accountID = (1::nat), max_amt = 10, spent = 3, committed = False\<rparr>
     \<noteq> Returned (10 - 3) \<lparr>accountID = 1, max_amt = 10, spent = 10, committed = False\<rparr>"
  by (simp add: Empty_def)

text \<open>
  C2, amended. \<open>Empty\<close> on an uncommitted budget sets \<open>spent\<close> to \<open>max\<close> and
  returns the value \<open>spent\<close> had before the call.
\<close>

theorem Empty_returns_previous_spent:
  "\<not> committed b \<Longrightarrow> Empty b = Returned (spent b) (b\<lparr>spent := max_amt b\<rparr>)"
  by (simp add: Empty_def)

theorem Empty_returns_previous_spent_witness:
  "\<not> committed \<lparr>accountID = (1::nat), max_amt = 10, spent = 3, committed = False\<rparr>
   \<and> Empty \<lparr>accountID = (1::nat), max_amt = 10, spent = 3, committed = False\<rparr>
     = Returned 3 \<lparr>accountID = 1, max_amt = 10, spent = 10, committed = False\<rparr>"
  using Empty_returns_previous_spent
          [of "\<lparr>accountID = (1::nat), max_amt = 10, spent = 3, committed = False\<rparr>"]
  by simp

subsection \<open>Calls on a committed budget\<close>

text \<open>
  C3. The claim: on a committed budget each of \<open>Spend\<close>, \<open>Refund\<close>, \<open>Empty\<close>
  and \<open>Commit\<close> panics. \<open>Spend\<close> does not: on the budget that a successful
  \<open>Commit\<close> leaves, spending zero returns no error and spending 5 returns the
  recoverable error, in both builds.
\<close>

theorem Spend_after_Commit_counterexample:
  "Commit False (\<lambda>st id amt. (Inr (st - amt) :: string + nat, st - amt))
      \<lparr>accountID = (1::nat), max_amt = 10, spent = 10, committed = False\<rparr>
      \<lparr>balances = [1 \<mapsto> \<lparr>balance = 5, openTxns = 2\<rparr>], store = (100::nat)\<rparr>
   = Returned None
      (\<lparr>accountID = 1, max_amt = 0, spent = 0, committed = True\<rparr>,
       \<lparr>balances = [1 \<mapsto> \<lparr>balance = 5, openTxns = 1\<rparr>], store = 90\<rparr>)
   \<and> Spend False \<lparr>accountID = (1::nat), max_amt = 0, spent = 0, committed = True\<rparr> 0
     = Returned (None :: string error option)
         \<lparr>accountID = 1, max_amt = 0, spent = 0, committed = True\<rparr>
   \<and> Spend True \<lparr>accountID = (1::nat), max_amt = 0, spent = 0, committed = True\<rparr> 0
     = Returned (None :: string error option)
         \<lparr>accountID = 1, max_amt = 0, spent = 0, committed = True\<rparr>
   \<and> Spend False \<lparr>accountID = (1::nat), max_amt = 0, spent = 0, committed = True\<rparr> 5
     = Returned (Some (ErrInsufficientBudget 5 0 :: string error))
         \<lparr>accountID = 1, max_amt = 0, spent = 0, committed = True\<rparr>
   \<and> Spend True \<lparr>accountID = (1::nat), max_amt = 0, spent = 0, committed = True\<rparr> 5
     = Returned (Some (ErrInsufficientBudget 5 0 :: string error))
         \<lparr>accountID = 1, max_amt = 0, spent = 0, committed = True\<rparr>"
  by (simp add: Commit_def Spend_def Sub_def ZeroCurrency_def Let_def)

text \<open>
  C3, amended. On a committed budget each of \<open>Refund\<close>, \<open>Empty\<close> and \<open>Commit\<close>
  panics with the message "budget already committed" and changes nothing.
  \<open>Spend\<close> does not look at the flag: within the invariant it returns the
  recoverable error when the amount exceeds what remains and succeeds
  otherwise, as on an uncommitted budget.
\<close>

theorem committed_budget_calls:
  assumes "committed b"
  shows "Refund debug b a = Panic ''budget already committed'' b
     \<and> Empty b = Panic ''budget already committed'' b
     \<and> Commit debug (debit :: ('id, 's, 'e) Debit) b am
         = Panic ''budget already committed'' (b, am)
     \<and> (spent b \<le> max_amt b \<longrightarrow>
          (Spend debug b a :: ('e error option, 'id budget) outcome) =
            (if max_amt b < spent b + a
             then Returned (Some (ErrInsufficientBudget a (max_amt b - spent b))) b
             else Returned None (b\<lparr>spent := spent b + a\<rparr>)))"
  using assms by (simp add: Refund_def Empty_def Commit_def Spend_cases)

theorem committed_budget_calls_witness:
  "committed \<lparr>accountID = (1::nat), max_amt = 0, spent = 0, committed = True\<rparr>
   \<and> Refund True \<lparr>accountID = (1::nat), max_amt = 0, spent = 0, committed = True\<rparr> 0
       = Panic ''budget already committed''
           \<lparr>accountID = 1, max_amt = 0, spent = 0, committed = True\<rparr>
   \<and> Empty \<lparr>accountID = (1::nat), max_amt = 0, spent = 0, committed = True\<rparr>
       = Panic ''budget already committed''
           \<lparr>accountID = 1, max_amt = 0, spent = 0, committed = True\<rparr>
   \<and> Commit True (\<lambda>st id amt. (Inr (st - amt) :: string + nat, st - amt))
         \<lparr>accountID = (1::nat), max_amt = 0, spent = 0, committed = True\<rparr>
         \<lparr>balances = [1 \<mapsto> \<lparr>balance = 5, openTxns = 1\<rparr>], store = (90::nat)\<rparr>
       = Panic ''budget already committed''
           (\<lparr>accountID = 1, max_amt = 0, spent = 0, committed = True\<rparr>,
            \<lparr>balances = [1 \<mapsto> \<lparr>balance = 5, openTxns = 1\<rparr>], store = 90\<rparr>)
   \<and> Spend True \<lparr>accountID = (1::nat), max_amt = 0, spent = 0, committed = True\<rparr> 5
       = Returned (Some (ErrInsufficientBudget 5 0 :: string error))
           \<lparr>accountID = 1, max_amt = 0, spent = 0, committed = True\<rparr>"
  using committed_budget_calls
          [of "\<lparr>accountID = (1::nat), max_amt = 0, spent = 0, committed = True\<rparr>"
              True 0 "\<lambda>st id amt. (Inr (st - amt) :: string + nat, st - amt)"
              "\<lparr>balances = [1 \<mapsto> \<lparr>balance = 5, openTxns = 1\<rparr>], store = (90::nat)\<rparr>"]
        committed_budget_calls
          [of "\<lparr>accountID = (1::nat), max_amt = 0, spent = 0, committed = True\<rparr>"
              True 5 "\<lambda>st id amt. (Inr (st - amt) :: string + nat, st - amt)"
              "\<lparr>balances = [1 \<mapsto> \<lparr>balance = 5, openTxns = 1\<rparr>], store = (90::nat)\<rparr>"]
  by simp

subsection \<open>Rollback\<close>

text \<open>
  C5. \<open>Rollback\<close> on an uncommitted budget whose account is in the table
  decrements \<open>openTxns\<close>; when the count reaches zero the entry is removed from
  the table, otherwise the whole of \<open>max\<close> is added to the balance. The result
  does not depend on \<open>spent\<close>, and the budget itself is left as it was.
\<close>

theorem Rollback_restores_max:
  assumes "\<not> committed b" and "balances am (accountID b) = Some st"
  shows "Rollback b am =
           Returned None
             (b, am\<lparr>balances :=
                      (if openTxns st - 1 = 0 then (balances am)(accountID b := None)
                       else (balances am)(accountID b \<mapsto>
                              st\<lparr>openTxns := openTxns st - 1,
                                 balance := balance st + max_amt b\<rparr>))\<rparr>)"
  using assms by (simp add: Rollback_def Let_def)

theorem Rollback_restores_max_witness:
  "\<not> committed \<lparr>accountID = (1::nat), max_amt = 10, spent = 3, committed = False\<rparr>
   \<and> balances \<lparr>balances = [(1::nat) \<mapsto> \<lparr>balance = 5, openTxns = 2\<rparr>], store = (100::nat)\<rparr>
        (accountID \<lparr>accountID = (1::nat), max_amt = 10, spent = 3, committed = False\<rparr>)
      = Some \<lparr>balance = 5, openTxns = 2\<rparr>
   \<and> Rollback \<lparr>accountID = (1::nat), max_amt = 10, spent = 3, committed = False\<rparr>
        \<lparr>balances = [1 \<mapsto> \<lparr>balance = 5, openTxns = 2\<rparr>], store = (100::nat)\<rparr>
      = Returned None
          (\<lparr>accountID = 1, max_amt = 10, spent = 3, committed = False\<rparr>,
           \<lparr>balances = [1 \<mapsto> \<lparr>balance = 15, openTxns = 1\<rparr>], store = 100\<rparr>)
   \<and> Rollback \<lparr>accountID = (1::nat), max_amt = 10, spent = 3, committed = False\<rparr>
        \<lparr>balances = [1 \<mapsto> \<lparr>balance = 5, openTxns = 1\<rparr>], store = (100::nat)\<rparr>
      = Returned None
          (\<lparr>accountID = 1, max_amt = 10, spent = 3, committed = False\<rparr>,
           \<lparr>balances = Map.empty, store = 100\<rparr>)"
  using Rollback_restores_max
          [of "\<lparr>accountID = (1::nat), max_amt = 10, spent = 3, committed = False\<rparr>"
              "\<lparr>balances = [1 \<mapsto> \<lparr>balance = 5, openTxns = 2\<rparr>], store = (100::nat)\<rparr>"
              "\<lparr>balance = 5, openTxns = 2\<rparr>"]
        Rollback_restores_max
          [of "\<lparr>accountID = (1::nat), max_amt = 10, spent = 3, committed = False\<rparr>"
              "\<lparr>balances = [1 \<mapsto> \<lparr>balance = 5, openTxns = 1\<rparr>], store = (100::nat)\<rparr>"
              "\<lparr>balance = 5, openTxns = 1\<rparr>"]
  by simp

text \<open>
  C8. On a committed budget \<open>Rollback\<close> returns no error and leaves the budget
  and the account manager (table, counts, balances, store) as they were; so
  does any number of calls in a row.
\<close>

theorem Rollback_after_commit_noop:
  assumes "committed b"
  shows "Rollback b am = Returned None (b, am)
     \<and> Rollback_n n b am = Returned None (b, am)"
proof -
  from assms have r: "\<And>e. Rollback b am = Returned (None :: 'e error option) (b, am)"
    by (simp add: Rollback_def)
  have "Rollback_n n b am = Returned (None :: 'e error option) (b, am)"
    by (induction n) (simp_all add: r)
  with r show ?thesis by simp
qed

theorem Rollback_after_commit_noop_witness:
  "committed \<lparr>accountID = (1::nat), max_amt = 0, spent = 0, committed = True\<rparr>
   \<and> Rollback \<lparr>accountID = (1::nat), max_amt = 0, spent = 0, committed = True\<rparr>
        \<lparr>balances = [1 \<mapsto> \<lparr>balance = 5, openTxns = 1\<rparr>], store = (90::nat)\<rparr>
      = Returned (None :: string error option)
          (\<lparr>accountID = 1, max_amt = 0, spent = 0, committed = True\<rparr>,
           \<lparr>balances = [1 \<mapsto> \<lparr>balance = 5, openTxns = 1\<rparr>], store = 90\<rparr>)
   \<and> Rollback_n 3 \<lparr>accountID = (1::nat), max_amt = 0, spent = 0, committed = True\<rparr>
        \<lparr>balances = [1 \<mapsto> \<lparr>balance = 5, openTxns = 1\<rparr>], store = (90::nat)\<rparr>
      = Returned (None :: string error option)
          (\<lparr>accountID = 1, max_amt = 0, spent = 0, committed = True\<rparr>,
           \<lparr>balances = [1 \<mapsto> \<lparr>balance = 5, openTxns = 1\<rparr>], store = 90\<rparr>)"
  using Rollback_after_commit_noop
          [of "\<lparr>accountID = (1::nat), max_amt = 0, spent = 0, committed = True\<rparr>"
              "\<lparr>balances = [1 \<mapsto> \<lparr>balance = 5, openTxns = 1\<rparr>], store = (90::nat)\<rparr>" 3]
  by simp

subsection \<open>Spend and Remaining\<close>

text \<open>
  C6. On a budget within its invariant \<open>Spend\<close> returns the error that wraps
  \<open>ErrInsufficientBudget\<close> and leaves the budget as it was exactly when
  \<open>spent + amount\<close> exceeds \<open>max\<close>; otherwise it returns no error and sets
  \<open>spent\<close> to \<open>spent + amount\<close>. After any sequence of calls, none of which
  panics, \<open>Remaining\<close> is \<open>max\<close> minus what was spent before and minus the
  amounts of the calls that succeeded. The committed flag plays no part.
\<close>

theorem Spend_within_budget:
  assumes "spent b \<le> max_amt b"
  shows "Spend debug b a =
           (if max_amt b < spent b + a
            then Returned (Some (ErrInsufficientBudget a (max_amt b - spent b))) b
            else Returned None (b\<lparr>spent := spent b + a\<rparr>))
     \<and> (\<exists>(rs :: 'e error option list) b'.
           Spend_seq debug b as = Returned rs b' \<and> length rs = length as
           \<and> spent b' = spent b + cumulativeSpent as rs
           \<and> Remaining debug b' = Inr (max_amt b - spent b - cumulativeSpent as rs))"
proof -
  from Spend_seq_total [OF assms, of debug as]
  obtain rs :: "'e error option list" and b' where
    *: "Spend_seq debug b as = Returned rs b'" "length rs = length as"
       "max_amt b' = max_amt b" "spent b' = spent b + cumulativeSpent as rs"
       "spent b' \<le> max_amt b'"
    by blast
  then have "Remaining debug b' = Inr (max_amt b - spent b - cumulativeSpent as rs)"
    by (simp add: Remaining_def Sub_le)
  with * have "\<exists>(rs :: 'e error option list) b'.
           Spend_seq debug b as = Returned rs b' \<and> length rs = length as
           \<and> spent b' = spent b + cumulativeSpent as rs
           \<and> Remaining debug b' = Inr (max_amt b - spent b - cumulativeSpent as rs)"
    by blast
  with Spend_cases [OF assms] show ?thesis by blast
qed

theorem Spend_within_budget_witness:
  "spent \<lparr>accountID = (1::nat), max_amt = 10, spent = 0, committed = False\<rparr>
     \<le> max_amt \<lparr>accountID = (1::nat), max_amt = 10, spent = 0, committed = False\<rparr>
   \<and> Spend True \<lparr>accountID = (1::nat), max_amt = 10, spent = 0, committed = False\<rparr> 4
      = Returned (None :: string error option)
          \<lparr>accountID = 1, max_amt = 10, spent = 4, committed = False\<rparr>
   \<and> Spend True \<lparr>accountID = (1::nat), max_amt = 10, spent = 0, committed = False\<rparr> 11
      = Returned (Some (ErrInsufficientBudget 11 10 :: string error))
          \<lparr>accountID = 1, max_amt = 10, spent = 0, committed = False\<rparr>
   \<and> Spend_seq True \<lparr>accountID = (1::nat), max_amt = 10, spent = 0, committed = False\<rparr>
        [4, 5, 3, 1]
      = Returned [None, None, Some (ErrInsufficientBudget 3 1 :: string error), None]
          \<lparr>accountID = 1, max_amt = 10, spent = 10, committed = False\<rparr>
   \<and> cumulativeSpent [4, 5, 3, 1]
        [None, None, Some (ErrInsufficientBudget 3 1 :: string error), None] = 10
   \<and> Remaining True \<lparr>accountID = (1::nat), max_amt = 10, spent = 10, committed = False\<rparr>
      = Inr 0"
  using Spend_within_budget
          [of "\<lparr>accountID = (1::nat), max_amt = 10, spent = 0, committed = False\<rparr>"
              True 4 "[4, 5, 3, 1]"]
        Spend_within_budget
          [of "\<lparr>accountID = (1::nat), max_amt = 10, spent = 0, committed = False\<rparr>"
              True 11 "[]"]
  by (simp add: Spend_def Sub_def Remaining_def Let_def)

subsection \<open>Commit when the debit fails\<close>

text \<open>
  C7. When \<open>Debit\<close> returns an error, \<open>Commit\<close> on an uncommitted budget
  returns that error, wrapped, and has written nothing: the budget (\<open>max\<close>,
  \<open>spent\<close>, \<open>committed\<close>) is the one it was given, and the table of balances
  and open-transaction counts is unchanged. Only the store is as \<open>Debit\<close>
  left it.
\<close>

theorem Commit_debit_error_unchanged:
  assumes "\<not> committed b"
    and "debit (store am) (accountID b) (spent b) = (Inl e, st)"
  shows "Commit debug debit b am
           = Returned (Some (ErrFailedToDebit e)) (b, am\<lparr>store := st\<rparr>)
     \<and> balances (am\<lparr>store := st\<rparr>) = balances am"
  using assms by (simp add: Commit_def)

theorem Commit_debit_error_unchanged_witness:
  "\<not> committed \<lparr>accountID = (1::nat), max_amt = 10, spent = 3, committed = False\<rparr>
   \<and> (\<lambda>st id amt. (Inl ''database is locked'' :: string + nat, st)) (100::nat) (1::nat) (3::nat)
      = (Inl ''database is locked'', 100)
   \<and> Commit True (\<lambda>st id amt. (Inl ''database is locked'' :: string + nat, st))
        \<lparr>accountID = (1::nat), max_amt = 10, spent = 3, committed = False\<rparr>
        \<lparr>balances = [1 \<mapsto> \<lparr>balance = 5, openTxns = 2\<rparr>], store = (100::nat)\<rparr>
      = Returned (Some (ErrFailedToDebit ''database is locked''))
          (\<lparr>accountID = 1, max_amt = 10, spent = 3, committed = False\<rparr>,
           \<lparr>balances = [1 \<mapsto> \<lparr>balance = 5, openTxns = 2\<rparr>], store = 100\<rparr>)"
  using Commit_debit_error_unchanged
          [of "\<lparr>accountID = (1::nat), max_amt = 10, spent = 3, committed = False\<rparr>"
              "\<lambda>st id amt. (Inl ''database is locked'' :: string + nat, st)"
              "\<lparr>balances = [1 \<mapsto> \<lparr>balance = 5, openTxns = 2\<rparr>], store = (100::nat)\<rparr>"
              "''database is locked''" 100 True]
  by simp

subsection \<open>The invariant of a budget\<close>

text \<open>
  C9. A budget with \<open>spent \<le> max\<close> keeps \<open>spent \<le> max\<close> through every call that
  returns (amounts are natural numbers, so \<open>0 \<le> spent\<close> always holds).
  \<open>Spend\<close> returns no error only when \<open>spent + amount \<le> max\<close>, and then
  \<open>spent\<close> is that sum; \<open>Refund\<close> returns only when \<open>amount \<le> spent\<close>, and then
  \<open>spent\<close> is the difference; \<open>Empty\<close> returns with \<open>spent = max\<close>; \<open>Commit\<close>
  returns no error with both fields zero, and an error with the budget as it
  was; \<open>Rollback\<close> does not write the budget.
\<close>

theorem budget_invariant_preserved:
  assumes "spent b \<le> max_amt b"
  shows "(\<forall>(r :: 'e error option) b'. Spend debug b a = Returned r b' \<longrightarrow>
            spent b' \<le> max_amt b'
            \<and> (r = None \<longrightarrow> spent b + a \<le> max_amt b \<and> spent b' = spent b + a))
     \<and> (\<forall>b'. Refund debug b a = Returned () b' \<longrightarrow>
            a \<le> spent b \<and> spent b' = spent b - a \<and> spent b' \<le> max_amt b')
     \<and> (\<forall>r b'. Empty b = Returned r b' \<longrightarrow> spent b' = max_amt b')
     \<and> (\<forall>r b' am'. Commit debug (debit :: ('id, 's, 'e) Debit) b am = Returned r (b', am') \<longrightarrow>
            spent b' \<le> max_amt b' \<and> (r = None \<longrightarrow> max_amt b' = 0 \<and> spent b' = 0))
     \<and> (\<forall>(r :: 'e error option) b' am'. Rollback b am = Returned r (b', am') \<longrightarrow>
            spent b' \<le> max_amt b')"
proof -
  have s: "\<forall>(r :: 'e error option) b'. Spend debug b a = Returned r b' \<longrightarrow>
            spent b' \<le> max_amt b'
            \<and> (r = None \<longrightarrow> spent b + a \<le> max_amt b \<and> spent b' = spent b + a)"
    using assms by (auto simp add: Spend_cases split: if_splits)
  have r: "\<forall>b'. Refund debug b a = Returned () b' \<longrightarrow>
            a \<le> spent b \<and> spent b' = spent b - a \<and> spent b' \<le> max_amt b'"
    using assms by (auto simp add: Refund_def Sub_le split: if_splits)
  have e: "\<forall>r b'. Empty b = Returned r b' \<longrightarrow> spent b' = max_amt b'"
    by (auto simp add: Empty_def split: if_splits)
  have c: "\<forall>r b' am'. Commit debug debit b am = Returned r (b', am') \<longrightarrow>
            spent b' \<le> max_amt b' \<and> (r = None \<longrightarrow> max_amt b' = 0 \<and> spent b' = 0)"
    using assms Commit_returned_budget [of debug debit b am]
      Commit_success_budget [of debug debit b am]
    by fastforce
  have k: "\<forall>(r :: 'e error option) b' am'. Rollback b am = Returned r (b', am') \<longrightarrow>
            spent b' \<le> max_amt b'"
    using assms Rollback_budget [of b am] by blast
  from s r e c k show ?thesis by blast
qed

theorem budget_invariant_preserved_witness:
  "spent \<lparr>accountID = (1::nat), max_amt = 10, spent = 3, committed = False\<rparr>
     \<le> max_amt \<lparr>accountID = (1::nat), max_amt = 10, spent = 3, committed = False\<rparr>
   \<and> Spend True \<lparr>accountID = (1::nat), max_amt = 10, spent = 3, committed = False\<rparr> 4
      = Returned (None :: string error option)
          \<lparr>accountID = 1, max_amt = 10, spent = 7, committed = False\<rparr>
   \<and> Refund True \<lparr>accountID = (1::nat), max_amt = 10, spent = 3, committed = False\<rparr> 2
      = Returned () \<lparr>accountID = 1, max_amt = 10, spent = 1, committed = False\<rparr>
   \<and> Empty \<lparr>accountID = (1::nat), max_amt = 10, spent = 3, committed = False\<rparr>
      = Returned 3 \<lparr>accountID = 1, max_amt = 10, spent = 10, committed = False\<rparr>
   \<and> Commit False (\<lambda>st id amt. (Inr (st - amt) :: string + nat, st - amt))
        \<lparr>accountID = (1::nat), max_amt = 10, spent = 3, committed = False\<rparr>
        \<lparr>balances = [1 \<mapsto> \<lparr>balance = 5, openTxns = 1\<rparr>], store = (100::nat)\<rparr>
      = Returned None
          (\<lparr>accountID = 1, max_amt = 0, spent = 0, committed = True\<rparr>,
           \<lparr>balances = Map.empty, store = 97\<rparr>)
   \<and> Rollback \<lparr>accountID = (1::nat), max_amt = 10, spent = 3, committed = False\<rparr>
        \<lparr>balances = [1 \<mapsto> \<lparr>balance = 5, openTxns = 1\<rparr>], store = (100::nat)\<rparr>
      = Returned (None :: string error option)
          (\<lparr>accountID = 1, max_amt = 10, spent = 3, committed = False\<rparr>,
           \<lparr>balances = Map.empty, store = 100\<rparr>)"
  using budget_invariant_preserved
          [of "\<lparr>accountID = (1::nat), max_amt = 10, spent = 3, committed = False\<rparr>"
              True 4 "\<lambda>st id amt. (Inr (st - amt) :: string + nat, st - amt)"
              "\<lparr>balances = [1 \<mapsto> \<lparr>balance = 5, openTxns = 1\<rparr>], store = (100::nat)\<rparr>"]
  by (simp add: Spend_def Refund_def Empty_def Commit_def Rollback_def Sub_def
        ZeroCurrency_def Let_def)

subsection \<open>Remaining after Commit\<close>

text \<open>
  C10. After a \<open>Commit\<close> that returned no error, \<open>max\<close> and \<open>spent\<close> are zero
  and the flag is set, so \<open>Remaining\<close> is zero. It stays zero: a later
  \<open>Spend\<close> of any amount returns with the budget unchanged, and a later
  \<open>Rollback\<close> changes nothing (the other calls panic).
\<close>

theorem Commit_then_Remaining_zero:
  assumes "Commit debug (debit :: ('id, 's, 'e) Debit) b am = Returned None (b', am')"
  shows "Remaining debug b' = Inr 0
     \<and> max_amt b' = 0 \<and> spent b' = 0 \<and> committed b'
     \<and> (\<forall>a. \<exists>(r :: 'e error option). Spend debug b' a = Returned r b')
     \<and> Rollback b' am' = Returned (None :: 'e error option) (b', am')"
proof -
  from Commit_success_budget [OF assms]
  have b': "max_amt b' = 0" "spent b' = 0" "committed b'" by simp_all
  then have "Remaining debug b' = Inr 0"
    by (simp add: Remaining_def Sub_def)
  moreover from b' have "\<forall>a. \<exists>(r :: 'e error option). Spend debug b' a = Returned r b'"
    by (simp add: Spend_def Sub_def Let_def)
  moreover from b' have "Rollback b' am' = Returned (None :: 'e error option) (b', am')"
    by (simp add: Rollback_def)
  ultimately show ?thesis using b' by simp
qed

theorem Commit_then_Remaining_zero_witness:
  "Commit True (\<lambda>st id amt. (Inr (st - amt) :: string + nat, st - amt))
      \<lparr>accountID = (1::nat), max_amt = 10, spent = 10, committed = False\<rparr>
      \<lparr>balances = [1 \<mapsto> \<lparr>balance = 5, openTxns = 2\<rparr>], store = (100::nat)\<rparr>
   = Returned None
      (\<lparr>accountID = 1, max_amt = 0, spent = 0, committed = True\<rparr>,
       \<lparr>balances = [1 \<mapsto> \<lparr>balance = 5, openTxns = 1\<rparr>], store = 90\<rparr>)
   \<and> Remaining True \<lparr>accountID = (1::nat), max_amt = 0, spent = 0, committed = True\<rparr>
      = Inr 0"
proof -
  have c: "Commit True (\<lambda>st id amt. (Inr (st - amt) :: string + nat, st - amt))
      \<lparr>accountID = (1::nat), max_amt = 10, spent = 10, committed = False\<rparr>
      \<lparr>balances = [1 \<mapsto> \<lparr>balance = 5, openTxns = 2\<rparr>], store = (100::nat)\<rparr>
   = Returned None
      (\<lparr>accountID = 1, max_amt = 0, spent = 0, committed = True\<rparr>,
       \<lparr>balances = [1 \<mapsto> \<lparr>balance = 5, openTxns = 1\<rparr>], store = 90\<rparr>)"
    by (simp add: Commit_def Sub_def ZeroCurrency_def Let_def)
  from Commit_then_Remaining_zero [OF c] c show ?thesis by simp
qed

section \<open>Properties of the contract store\<close>

lemma batch_append:
  "batch (xs @ ys) tx = (case batch xs tx of Inl e \<Rightarrow> Inl e | Inr tx' \<Rightarrow> batch ys tx')"
  by (induction xs arbitrary: tx) (auto split: sum.splits)

lemma RunUpdate_abort: "fst (RunUpdate fn s) = Some e \<Longrightarrow> snd (RunUpdate fn s) = s"
  by (auto simp add: RunUpdate_def split: sum.splits)

text \<open>
  The steps of \<open>TestUpdateContractRoots\<close> on the model, with the roots
  \<open>0, \<dots>, 9\<close>: ten appends, the swap of 5 and 8, the trim of 3, and the swap
  of 0 and 100 that has to fail and leave the seven roots as they are.
\<close>

lemma TestUpdateContractRoots_append:
  "RunUpdate (batch (map (OpAppend (0::nat)) [0, 1, 2, 3, 4, 5, 6, 7, 8, 9]))
      [0 \<mapsto> ([] :: nat list)]
   = (None, [0 \<mapsto> [0, 1, 2, 3, 4, 5, 6, 7, 8, 9]])"
  by (simp add: RunUpdate_def AppendSector_def)

lemma TestUpdateContractRoots_swap:
  "RunUpdate (SwapSectors (0::nat) 5 8) [0 \<mapsto> [0, 1, 2, 3, 4, 5, 6, 7, 8, 9 :: nat]]
   = (None, [0 \<mapsto> [0, 1, 2, 3, 4, 8, 6, 7, 5, 9]])"
  by (simp add: RunUpdate_def SwapSectors_def eval_nat_numeral)

lemma TestUpdateContractRoots_trim:
  "RunUpdate (TrimSectors (0::nat) 3) [0 \<mapsto> [0, 1, 2, 3, 4, 8, 6, 7, 5, 9 :: nat]]
   = (None, [0 \<mapsto> [0, 1, 2, 3, 4, 8, 6]])"
  by (simp add: RunUpdate_def TrimSectors_def)

lemma TestUpdateContractRoots_read:
  "SectorRoots (0::nat) 0 100 [0 \<mapsto> [0, 1, 2, 3, 4, 8, 6 :: nat]]
   = Inr [0, 1, 2, 3, 4, 8, 6]"
  by (simp add: SectorRoots_def)

text \<open>
  C4. A \<open>SwapSectors\<close> with an index equal to or beyond the length the list
  has when the call is made fails with \<open>ErrIndexOutOfRange\<close>. A callback that
  issued the operations \<open>pre\<close> before it, all of them accepted, and returns
  that error makes \<open>RunUpdate\<close> return the error and keep the store as it was
  before the call, so every contract reads back as before; the operations
  \<open>post\<close> after it are never issued.
\<close>

theorem SwapSectors_out_of_range_aborts:
  assumes "batch pre s = Inr tx" and "tx c = Some roots"
    and "length roots \<le> i \<or> length roots \<le> j"
  shows "SwapSectors c i j tx = Inl ErrIndexOutOfRange
     \<and> RunUpdate (batch (pre @ OpSwap c i j # post)) s = (Some ErrIndexOutOfRange, s)
     \<and> SectorRoots c' offset limit (snd (RunUpdate (batch (pre @ OpSwap c i j # post)) s))
         = SectorRoots c' offset limit s"
proof -
  from assms(2,3) have sw: "SwapSectors c i j tx = Inl ErrIndexOutOfRange"
    by (auto simp add: SwapSectors_def)
  with assms(1) have "batch (pre @ OpSwap c i j # post) s = Inl ErrIndexOutOfRange"
    by (simp add: batch_append)
  then have "RunUpdate (batch (pre @ OpSwap c i j # post)) s = (Some ErrIndexOutOfRange, s)"
    by (simp add: RunUpdate_def)
  with sw show ?thesis by simp
qed

theorem SwapSectors_out_of_range_aborts_witness:
  "batch [OpAppend (0::nat) (7::nat), OpTrim 0 1] [0 \<mapsto> [0, 1, 2, 3, 4, 8, 6]]
     = Inr [0 \<mapsto> [0, 1, 2, 3, 4, 8, 6]]
   \<and> [(0::nat) \<mapsto> [0, 1, 2, 3, 4, 8, 6 :: nat]] 0 = Some [0, 1, 2, 3, 4, 8, 6]
   \<and> (length [0, 1, 2, 3, 4, 8, 6 :: nat] \<le> 0 \<or> length [0, 1, 2, 3, 4, 8, 6 :: nat] \<le> 100)
   \<and> SwapSectors (0::nat) 0 100 [0 \<mapsto> [0, 1, 2, 3, 4, 8, 6 :: nat]] = Inl ErrIndexOutOfRange
   \<and> RunUpdate (batch ([OpAppend (0::nat) (7::nat), OpTrim 0 1] @ OpSwap 0 0 100 # []))
        [0 \<mapsto> [0, 1, 2, 3, 4, 8, 6]]
      = (Some ErrIndexOutOfRange, [0 \<mapsto> [0, 1, 2, 3, 4, 8, 6]])
   \<and> SectorRoots 0 0 100
        (snd (RunUpdate (batch ([OpAppend (0::nat) (7::nat), OpTrim 0 1] @ OpSwap 0 0 100 # []))
               [0 \<mapsto> [0, 1, 2, 3, 4, 8, 6]]))
      = Inr [0, 1, 2, 3, 4, 8, 6]"
proof -
  have b: "batch [OpAppend (0::nat) (7::nat), OpTrim 0 1] [0 \<mapsto> [0, 1, 2, 3, 4, 8, 6]]
             = Inr [0 \<mapsto> [0, 1, 2, 3, 4, 8, 6]]"
    by (simp add: AppendSector_def TrimSectors_def)
  have l: "[(0::nat) \<mapsto> [0, 1, 2, 3, 4, 8, 6 :: nat]] 0 = Some [0, 1, 2, 3, 4, 8, 6]"
    by simp
  have r: "length [0, 1, 2, 3, 4, 8, 6 :: nat] \<le> 0 \<or> length [0, 1, 2, 3, 4, 8, 6 :: nat] \<le> 100"
    by simp
  have rd: "SectorRoots (0::nat) 0 100 [0 \<mapsto> [0, 1, 2, 3, 4, 8, 6 :: nat]]
              = Inr [0, 1, 2, 3, 4, 8, 6]"
    by (simp add: SectorRoots_def)
  note t = SwapSectors_out_of_range_aborts [OF b l r, of Nil 0 0 100]
  from t have t1: "SwapSectors (0::nat) 0 100 [0 \<mapsto> [0, 1, 2, 3, 4, 8, 6 :: nat]]
                     = Inl ErrIndexOutOfRange"
    by (rule conjunct1)
  from t have t2: "RunUpdate
                     (batch ([OpAppend (0::nat) (7::nat), OpTrim 0 1] @ OpSwap 0 0 100 # []))
                     [0 \<mapsto> [0, 1, 2, 3, 4, 8, 6]]
                   = (Some ErrIndexOutOfRange, [0 \<mapsto> [0, 1, 2, 3, 4, 8, 6]])"
    by (rule conjunct1 [OF conjunct2])
  from t have t3: "SectorRoots 0 0 100
        (snd (RunUpdate (batch ([OpAppend (0::nat) (7::nat), OpTrim 0 1] @ OpSwap 0 0 100 # []))
               [0 \<mapsto> [0, 1, 2, 3, 4, 8, 6]]))
      = SectorRoots (0::nat) 0 100 [0 \<mapsto> [0, 1, 2, 3, 4, 8, 6]]"
    by (rule conjunct2 [OF conjunct2])
  from b l r t1 t2 trans [OF t3 rd] show ?thesis by blast
qed

end
